theory Spec2Isabelle
  imports Main "HOL-Library.Word"
begin

section \<open>The chat component of the Barista frontend\<close>

text \<open>
  The only program logic of the repository's sources is the React component
  \<^verbatim>\<open>ChatInterface\<close>: its state hooks, the asynchronous \<^verbatim>\<open>handleSend\<close>, the voice
  handler and the event handlers bound in the JSX. This theory embeds that component:
  the state hooks become a record, \<^verbatim>\<open>handleSend\<close> becomes the part that runs up to the
  \<^verbatim>\<open>await fetch\<close> and the part that runs when the fetch settles, and the browser around
  the component (events, requests in flight, speech recognition, local storage) becomes
  an explicit world with a step function.
\<close>

subsection \<open>JavaScript strings\<close>

text \<open>
  A JavaScript string is a sequence of UTF-16 code units. \<open>lit\<close> turns a literal of the
  source into its code units (the literals of the component are all ASCII).
\<close>

type_synonym jsstring = "16 word list"

definition lit :: "string \<Rightarrow> jsstring" where
  "lit s = map of_char s"

text \<open>
  \<^verbatim>\<open>String.prototype.trim\<close> removes white space and line terminators from both ends:
  TAB, LF, VT, FF, CR, SP, NBSP, the other space separators of Unicode (U+1680,
  U+2000 to U+200A, U+202F, U+205F, U+3000), LS, PS and the byte order mark.
\<close>

definition isWhiteSpace :: "16 word \<Rightarrow> bool" where
  "isWhiteSpace c \<longleftrightarrow>
     c = 0x0009 \<or> c = 0x000A \<or> c = 0x000B \<or> c = 0x000C \<or> c = 0x000D \<or>
     c = 0x0020 \<or> c = 0x00A0 \<or> c = 0x1680 \<or> (0x2000 \<le> c \<and> c \<le> 0x200A) \<or>
     c = 0x2028 \<or> c = 0x2029 \<or> c = 0x202F \<or> c = 0x205F \<or> c = 0x3000 \<or>
     c = 0xFEFF"

definition trim :: "jsstring \<Rightarrow> jsstring" where
  "trim s = rev (dropWhile isWhiteSpace (rev (dropWhile isWhiteSpace s)))"

text \<open>A string is truthy when it is not empty; \<^verbatim>\<open>null\<close> and \<^verbatim>\<open>undefined\<close> are falsy.\<close>

definition truthy :: "jsstring option \<Rightarrow> bool" where
  "truthy v = (case v of None \<Rightarrow> False | Some s \<Rightarrow> s \<noteq> [])"

subsection \<open>Messages and component state\<close>

text \<open>
  \<^verbatim>\<open>interface Message { role: "user" | "assistant"; content: string; imageUrl?: string }\<close>.
  The role is kept as the string it is at run time, so that which roles occur is a
  property of the code and not of the type; an absent \<^verbatim>\<open>imageUrl\<close> is \<open>None\<close>.
\<close>

record message =
  role :: jsstring
  content :: jsstring
  imageUrl :: "jsstring option"

text \<open>
  The state hooks of \<^verbatim>\<open>ChatInterface\<close>. \<open>sessionId\<close> is \<^verbatim>\<open>string | null\<close> (\<open>None\<close> is
  \<^verbatim>\<open>null\<close>); \<open>recognition\<close> tells whether the component holds a \<^verbatim>\<open>SpeechRecognition\<close>
  instance or \<^verbatim>\<open>null\<close>.
\<close>

record state =
  messages :: "message list"
  input :: jsstring
  isLoading :: bool
  sessionId :: "jsstring option"
  isListening :: bool
  recognition :: bool

text \<open>
  A function created during a render reads the state variables of that render.
  \<^verbatim>\<open>handleSend\<close> reads \<^verbatim>\<open>input\<close>, \<^verbatim>\<open>isLoading\<close> and \<^verbatim>\<open>sessionId\<close>; these three values
  are its \<open>render\<close>. The setters are stable across renders, and \<^verbatim>\<open>setMessages\<close> is
  always called with an updater function, so it works on the latest list.
\<close>

record render =
  r_input :: jsstring
  r_isLoading :: bool
  r_sessionId :: "jsstring option"

definition render_of :: "state \<Rightarrow> render" where
  "render_of s = \<lparr>r_input = input s, r_isLoading = isLoading s, r_sessionId = sessionId s\<rparr>"

text \<open>The values of the \<^verbatim>\<open>useState\<close> calls: what the first render sees.\<close>

definition initial_state :: "bool \<Rightarrow> state" where
  "initial_state supported =
     \<lparr>messages = [], input = [], isLoading = False, sessionId = None,
      isListening = False, recognition = supported\<rparr>"

definition first_render :: render where
  "first_render = \<lparr>r_input = [], r_isLoading = False, r_sessionId = None\<rparr>"

subsection \<open>Requests and responses\<close>

datatype json = JNull | JString jsstring

text \<open>
  The argument of \<^verbatim>\<open>fetch\<close>. \<open>http_method\<close> is the option \<^verbatim>\<open>method\<close>; \<open>body\<close> is the
  object handed to \<^verbatim>\<open>JSON.stringify\<close>, as its fields in order.
\<close>

record request =
  url :: jsstring
  http_method :: jsstring
  headers :: "(jsstring \<times> jsstring) list"
  body :: "(jsstring \<times> json) list"

text \<open>
  \<^verbatim>\<open>process.env.NEXT_PUBLIC_API_BASE_URL || "http://localhost:8080"\<close>: the variable may
  be unset.
\<close>

definition apiBaseUrl :: "jsstring option \<Rightarrow> jsstring" where
  "apiBaseUrl env =
     (case env of
        Some u \<Rightarrow> if u \<noteq> [] then u else lit ''http://localhost:8080''
      | None \<Rightarrow> lit ''http://localhost:8080'')"

definition json_of_session :: "jsstring option \<Rightarrow> json" where
  "json_of_session sid = (case sid of None \<Rightarrow> JNull | Some i \<Rightarrow> JString i)"

definition chat_request :: "jsstring option \<Rightarrow> render \<Rightarrow> jsstring \<Rightarrow> request" where
  "chat_request env r text =
     \<lparr>url = apiBaseUrl env @ lit ''/api/chat/'',
      http_method = lit ''POST'',
      headers = [(lit ''Content-Type'', lit ''application/json'')],
      body = [(lit ''message'', JString text),
              (lit ''session_id'', json_of_session (r_sessionId r))]\<rparr>"

text \<open>
  The value of \<^verbatim>\<open>await response.json()\<close>, with the fields the component reads, typed as
  the component uses them: \<^verbatim>\<open>data.response\<close> becomes a \<^verbatim>\<open>content: string\<close>,
  \<^verbatim>\<open>data.session_id\<close> goes to \<^verbatim>\<open>setSessionId\<close> (\<^verbatim>\<open>string | null\<close>), and
  \<^verbatim>\<open>data.image_url\<close> may be missing, \<^verbatim>\<open>null\<close> or a string.
\<close>

datatype image_field = Undefined | Null | Str jsstring

record chat_data =
  response :: jsstring
  session_id :: "jsstring option"
  image_url :: image_field

text \<open>
  How a fetch settles: the promise rejects (network failure), or it resolves to a
  response with a status and a body; the body is \<open>None\<close> when \<^verbatim>\<open>response.json()\<close>
  rejects. \<^verbatim>\<open>response.ok\<close> is true for a status from 200 to 299.
\<close>

datatype fetch_outcome = Rejected | Response nat "chat_data option"

definition response_ok :: "nat \<Rightarrow> bool" where
  "response_ok status \<longleftrightarrow> 200 \<le> status \<and> status \<le> 299"

subsection \<open>handleSend\<close>

text \<open>\<^verbatim>\<open>const text = messageText || input.trim()\<close>\<close>

definition send_text :: "render \<Rightarrow> jsstring option \<Rightarrow> jsstring" where
  "send_text r messageText =
     (case messageText of
        Some m \<Rightarrow> if m \<noteq> [] then m else trim (r_input r)
      | None \<Rightarrow> trim (r_input r))"

text \<open>
  The synchronous part of \<^verbatim>\<open>handleSend\<close>, up to the call of \<^verbatim>\<open>fetch\<close>: the guard, the
  user message, the two setters, and the request it issues (\<open>None\<close> when it returns at
  the guard).
\<close>

definition handleSend_begin ::
  "jsstring option \<Rightarrow> render \<Rightarrow> jsstring option \<Rightarrow> state \<Rightarrow> state \<times> request option" where
  "handleSend_begin env r messageText s =
     (let text = send_text r messageText in
      if text = [] \<or> r_isLoading r then (s, None)
      else
        let userMessage = \<lparr>role = lit ''user'', content = text, imageUrl = None\<rparr> in
        (s\<lparr>messages := messages s @ [userMessage], input := [], isLoading := True\<rparr>,
         Some (chat_request env r text)))"

text \<open>
  The \<^verbatim>\<open>try\<close> block after the fetch has settled. A rejected fetch, a status that is not
  ok (the \<^verbatim>\<open>throw\<close>) and a body that is not JSON leave the block with an error before any
  setter has been called.
\<close>

datatype error = FetchFailed | HttpError nat | JsonFailed

definition image_of :: "image_field \<Rightarrow> jsstring option" where
  "image_of v = (case v of Str u \<Rightarrow> (if u \<noteq> [] then Some u else None) | _ \<Rightarrow> None)"

definition assistantMessage :: "chat_data \<Rightarrow> message" where
  "assistantMessage data =
     \<lparr>role = lit ''assistant'', content = response data, imageUrl = image_of (image_url data)\<rparr>"

definition errorMessage :: message where
  "errorMessage =
     \<lparr>role = lit ''assistant'',
      content = lit ''Sorry, I encountered an error. Please try again.'',
      imageUrl = None\<rparr>"

definition try_block :: "render \<Rightarrow> fetch_outcome \<Rightarrow> state \<Rightarrow> error + state" where
  "try_block r outcome s =
     (case outcome of
        Rejected \<Rightarrow> Inl FetchFailed
      | Response status parsed \<Rightarrow>
          if \<not> response_ok status then Inl (HttpError status)
          else (case parsed of
                  None \<Rightarrow> Inl JsonFailed
                | Some data \<Rightarrow>
                    let s1 = (if \<not> truthy (r_sessionId r)
                              then s\<lparr>sessionId := session_id data\<rparr> else s)
                    in Inr (s1\<lparr>messages := messages s1 @ [assistantMessage data]\<rparr>)))"

text \<open>The continuation of \<^verbatim>\<open>handleSend\<close>: \<^verbatim>\<open>try\<close>, \<^verbatim>\<open>catch\<close>, \<^verbatim>\<open>finally\<close>.\<close>

definition handleSend_settle :: "render \<Rightarrow> fetch_outcome \<Rightarrow> state \<Rightarrow> state" where
  "handleSend_settle r outcome s =
     (let s' = (case try_block r outcome s of
                  Inr s2 \<Rightarrow> s2
                | Inl e \<Rightarrow> s\<lparr>messages := messages s @ [errorMessage]\<rparr>)
      in s'\<lparr>isLoading := False\<rparr>)"

subsection \<open>The component in the browser\<close>

text \<open>
  The world around the component: the component state; the calls of \<^verbatim>\<open>handleSend\<close>
  waiting at \<^verbatim>\<open>await fetch\<close>, each with the render whose \<^verbatim>\<open>handleSend\<close> it is; the log
  of every request issued; whether the speech recogniser is running; and the origin's
  \<^verbatim>\<open>localStorage\<close>.
\<close>

record world =
  ui :: state
  inflight :: "(render \<times> request) list"
  sent :: "request list"
  recognizing :: bool
  localStorage :: "(jsstring \<times> jsstring) list"

text \<open>
  Mounting the component: the initial values of the hooks, then the mount effect, which
  stores a recogniser when the browser has one. The component has no other effect that
  reads or writes anything outside its own state.
\<close>

definition mount :: "bool \<Rightarrow> (jsstring \<times> jsstring) list \<Rightarrow> world" where
  "mount supported storage =
     \<lparr>ui = initial_state supported, inflight = [], sent = [], recognizing = False,
      localStorage = storage\<rparr>"

text \<open>A page refresh unloads the page and mounts the component again.\<close>

definition reload :: "world \<Rightarrow> world" where
  "reload w = mount (recognition (ui w)) (localStorage w)"

text \<open>A call of \<^verbatim>\<open>handleSend\<close> of render \<open>r\<close>, up to its \<^verbatim>\<open>await\<close>.\<close>

definition call_handleSend ::
  "jsstring option \<Rightarrow> render \<Rightarrow> jsstring option \<Rightarrow> world \<Rightarrow> world" where
  "call_handleSend env r messageText w =
     (case handleSend_begin env r messageText (ui w) of
        (s, None) \<Rightarrow> w\<lparr>ui := s\<rparr>
      | (s, Some req) \<Rightarrow>
          w\<lparr>ui := s, inflight := inflight w @ [(r, req)], sent := sent w @ [req]\<rparr>)"

text \<open>
  \<^verbatim>\<open>handleVoiceInput\<close>: without a recogniser it only alerts; otherwise it stops or
  starts the recogniser. \<^verbatim>\<open>recognition.stop()\<close> asks the recogniser to finish with the
  audio it has heard, so a result may still follow: the recogniser counts as running
  until it reports a result, an error or its end.
\<close>

definition handleVoiceInput :: "world \<Rightarrow> world" where
  "handleVoiceInput w =
     (if \<not> recognition (ui w) then w
      else if isListening (ui w)
      then w\<lparr>ui := (ui w)\<lparr>isListening := False\<rparr>\<rparr>
      else w\<lparr>ui := (ui w)\<lparr>isListening := True\<rparr>, recognizing := True\<rparr>)"

text \<open>
  The events the component reacts to. \<open>Change\<close>, \<open>KeyEnter\<close> (Enter without Shift in
  the text input), \<open>ClickSend\<close> and \<open>ClickMic\<close> come from the rendered controls;
  \<open>SpeechResult\<close>, \<open>SpeechError\<close> and \<open>SpeechEnd\<close> come from the recogniser;
  \<open>Settle i outcome\<close> is the fetch of the \<open>i\<close>-th waiting call settling.
\<close>

datatype event =
    Change jsstring
  | KeyEnter
  | ClickSend
  | ClickMic
  | SpeechResult jsstring
  | SpeechError
  | SpeechEnd
  | Settle nat fetch_outcome

text \<open>
  One event. A disabled control delivers no event: the text input and the voice button
  carry \<^verbatim>\<open>disabled={isLoading}\<close>, the send button
  \<^verbatim>\<open>disabled={isLoading || !input.trim()}\<close>. The handlers of the rendered controls
  belong to the current render. The recogniser's \<^verbatim>\<open>onresult\<close> is created once, in the
  mount effect (dependency list \<^verbatim>\<open>[]\<close>), so the \<^verbatim>\<open>handleSend\<close> it calls is the one of
  the first render.
\<close>

fun step :: "jsstring option \<Rightarrow> event \<Rightarrow> world \<Rightarrow> world" where
  "step env (Change v) w =
     (if isLoading (ui w) then w else w\<lparr>ui := (ui w)\<lparr>input := v\<rparr>\<rparr>)"
| "step env KeyEnter w =
     (if isLoading (ui w) then w else call_handleSend env (render_of (ui w)) None w)"
| "step env ClickSend w =
     (if isLoading (ui w) \<or> trim (input (ui w)) = [] then w
      else call_handleSend env (render_of (ui w)) None w)"
| "step env ClickMic w =
     (if isLoading (ui w) then w else handleVoiceInput w)"
| "step env (SpeechResult transcript) w =
     (if \<not> recognizing w then w
      else
        let w1 = w\<lparr>ui := (ui w)\<lparr>input := transcript, isListening := False\<rparr>,
                   recognizing := False\<rparr>
        in call_handleSend env first_render (Some transcript) w1)"
| "step env SpeechError w =
     (if \<not> recognizing w then w
      else w\<lparr>ui := (ui w)\<lparr>isListening := False\<rparr>, recognizing := False\<rparr>)"
| "step env SpeechEnd w =
     w\<lparr>ui := (ui w)\<lparr>isListening := False\<rparr>, recognizing := False\<rparr>"
| "step env (Settle i outcome) w =
     (if i < length (inflight w)
      then w\<lparr>ui := handleSend_settle (fst (inflight w ! i)) outcome (ui w),
             inflight := take i (inflight w) @ drop (Suc i) (inflight w)\<rparr>
      else w)"

definition run :: "jsstring option \<Rightarrow> event list \<Rightarrow> world \<Rightarrow> world" where
  "run env es w = fold (step env) es w"

subsection \<open>Notions used to state the properties\<close>

text \<open>The requests that one event makes the component issue.\<close>

definition issued :: "jsstring option \<Rightarrow> event \<Rightarrow> world \<Rightarrow> request list" where
  "issued env e w = drop (length (sent w)) (sent (step env e w))"

text \<open>
  A call of \<^verbatim>\<open>handleSend\<close> passes its guard when \<^verbatim>\<open>!text || isLoading\<close> is false. An
  event is an accepted user turn when its control delivers it and the call of
  \<^verbatim>\<open>handleSend\<close> it makes passes the guard.
\<close>

definition passes_guard :: "render \<Rightarrow> jsstring option \<Rightarrow> bool" where
  "passes_guard r messageText \<longleftrightarrow> \<not> (send_text r messageText = [] \<or> r_isLoading r)"

definition accepts :: "event \<Rightarrow> world \<Rightarrow> bool" where
  "accepts e w =
     (case e of
        KeyEnter \<Rightarrow> \<not> isLoading (ui w) \<and> passes_guard (render_of (ui w)) None
      | ClickSend \<Rightarrow> \<not> (isLoading (ui w) \<or> trim (input (ui w)) = []) \<and>
                     passes_guard (render_of (ui w)) None
      | SpeechResult transcript \<Rightarrow>
          recognizing w \<and> passes_guard first_render (Some transcript)
      | _ \<Rightarrow> False)"

text \<open>The fetch failed, or its response is not ok.\<close>

definition failed :: "fetch_outcome \<Rightarrow> bool" where
  "failed outcome =
     (case outcome of Rejected \<Rightarrow> True | Response status parsed \<Rightarrow> \<not> response_ok status)"

text \<open>Truthiness of \<^verbatim>\<open>data.image_url\<close>.\<close>

definition truthy_field :: "image_field \<Rightarrow> bool" where
  "truthy_field v = (case v of Undefined \<Rightarrow> False | Null \<Rightarrow> False | Str u \<Rightarrow> u \<noteq> [])"

text \<open>
  The shape of a message: a user message without image, or an assistant message whose
  image, if present, is a non-empty string.
\<close>

definition well_shaped :: "message \<Rightarrow> bool" where
  "well_shaped m \<longleftrightarrow>
     role m = lit ''user'' \<and> imageUrl m = None \<or>
     role m = lit ''assistant'' \<and> imageUrl m \<noteq> Some []"

text \<open>
  Sends are sequential in a run when no event that calls \<^verbatim>\<open>handleSend\<close> arrives while
  a call is still waiting for its fetch.
\<close>

definition is_turn :: "event \<Rightarrow> bool" where
  "is_turn e =
     (case e of KeyEnter \<Rightarrow> True | ClickSend \<Rightarrow> True | SpeechResult t \<Rightarrow> True
      | _ \<Rightarrow> False)"

fun sequential :: "jsstring option \<Rightarrow> event list \<Rightarrow> world \<Rightarrow> bool" where
  "sequential env [] w = True"
| "sequential env (e # es) w =
     ((is_turn e \<longrightarrow> inflight w = []) \<and> sequential env es (step env e w))"

text \<open>
  The conversation of a world with at most one waiting call: one user and one assistant
  message for every settled request, then the user message of the waiting call.
\<close>

definition alternating :: "world \<Rightarrow> bool" where
  "alternating w \<longleftrightarrow>
     length (inflight w) \<le> 1 \<and> length (inflight w) \<le> length (sent w) \<and>
     map role (messages (ui w)) =
       concat (replicate (length (sent w) - length (inflight w))
                 [lit ''user'', lit ''assistant'']) @
       replicate (length (inflight w)) (lit ''user'')"

text \<open>A successful reply of the server, for the example runs.\<close>

definition reply :: "string \<Rightarrow> string \<Rightarrow> fetch_outcome" where
  "reply txt sid =
     Response 200
       (Some \<lparr>response = lit txt, session_id = Some (lit sid), image_url = Undefined\<rparr>)"

section \<open>Properties of the component\<close>

subsection \<open>Basic facts about handleSend\<close>

lemmas eval_defs =
  run_def mount_def initial_state_def call_handleSend_def handleSend_begin_def
  handleSend_settle_def try_block_def send_text_def render_of_def first_render_def
  trim_def isWhiteSpace_def lit_def Let_def chat_request_def apiBaseUrl_def
  json_of_session_def errorMessage_def assistantMessage_def image_of_def response_ok_def
  handleVoiceInput_def truthy_def reply_def

lemma trim_blank: "list_all isWhiteSpace s \<Longrightarrow> trim s = []"
  by (auto simp: trim_def list_all_iff dest: set_dropWhileD)

lemma settle_failed:
  "outcome = Rejected \<or>
     (\<exists>status parsed. outcome = Response status parsed \<and> \<not> response_ok status) \<Longrightarrow>
   handleSend_settle r outcome s =
     s\<lparr>messages := messages s @ [errorMessage], isLoading := False\<rparr>"
  by (auto simp: handleSend_settle_def try_block_def)

lemma settle_ok:
  "response_ok status \<Longrightarrow>
   handleSend_settle r (Response status (Some data)) s =
     (if truthy (r_sessionId r)
      then s\<lparr>messages := messages s @ [assistantMessage data], isLoading := False\<rparr>
      else s\<lparr>messages := messages s @ [assistantMessage data], isLoading := False,
             sessionId := session_id data\<rparr>)"
  by (simp add: handleSend_settle_def try_block_def)

lemma settle_appends:
  "\<exists>m. messages (handleSend_settle r outcome s) = messages s @ [m] \<and>
       role m = lit ''assistant''"
  by (simp add: handleSend_settle_def try_block_def errorMessage_def assistantMessage_def
      split: fetch_outcome.split option.split)

lemma settle_well_shaped:
  "\<exists>m. messages (handleSend_settle r outcome s) = messages s @ [m] \<and> well_shaped m"
  by (simp add: handleSend_settle_def try_block_def errorMessage_def assistantMessage_def
      image_of_def well_shaped_def
      split: fetch_outcome.split option.split image_field.split)

lemma call_rejected:
  "send_text r mt = [] \<or> r_isLoading r \<Longrightarrow> call_handleSend env r mt w = w"
  by (auto simp: call_handleSend_def handleSend_begin_def)

lemma call_accepted:
  "send_text r mt \<noteq> [] \<Longrightarrow> \<not> r_isLoading r \<Longrightarrow>
   call_handleSend env r mt w =
     w\<lparr>ui := (ui w)\<lparr>messages := messages (ui w) @
                 [\<lparr>role = lit ''user'', content = send_text r mt, imageUrl = None\<rparr>],
               input := [], isLoading := True\<rparr>,
       inflight := inflight w @ [(r, chat_request env r (send_text r mt))],
       sent := sent w @ [chat_request env r (send_text r mt)]\<rparr>"
  by (simp add: call_handleSend_def handleSend_begin_def Let_def)

lemma call_messages:
  "messages (ui (call_handleSend env r mt w)) = messages (ui w) \<or>
   messages (ui (call_handleSend env r mt w)) =
     messages (ui w) @ [\<lparr>role = lit ''user'', content = send_text r mt, imageUrl = None\<rparr>]"
  by (simp add: call_handleSend_def handleSend_begin_def Let_def)

subsection \<open>What one event issues\<close>

text \<open>
  An event issues nothing, or it is an accepted turn and issues one request: from the
  keyboard or the send button with the trimmed input and the render of the moment, from
  the recogniser with the transcript and the first render.
\<close>

lemma issued_cases:
  "issued env e w = [] \<and> \<not> accepts e w \<or>
   accepts e w \<and>
     ((e = KeyEnter \<or> e = ClickSend) \<and> trim (input (ui w)) \<noteq> [] \<and>
        issued env e w = [chat_request env (render_of (ui w)) (trim (input (ui w)))] \<or>
      (\<exists>t. e = SpeechResult t \<and> t \<noteq> [] \<and>
        issued env e w = [chat_request env first_render t]))"
proof (cases e)
  case (Change v)
  then show ?thesis by (simp add: issued_def accepts_def)
next
  case KeyEnter
  then show ?thesis
    by (cases "trim (input (ui w)) = []")
       (auto simp: issued_def accepts_def passes_guard_def call_rejected call_accepted
          render_of_def send_text_def)
next
  case ClickSend
  then show ?thesis
    by (auto simp: issued_def accepts_def passes_guard_def call_rejected call_accepted
          render_of_def send_text_def)
next
  case ClickMic
  then show ?thesis by (simp add: issued_def accepts_def handleVoiceInput_def)
next
  case (SpeechResult t)
  then show ?thesis
    by (cases "t = []")
       (auto simp: issued_def accepts_def passes_guard_def call_rejected call_accepted
          first_render_def send_text_def trim_def Let_def)
next
  case SpeechError
  then show ?thesis by (simp add: issued_def accepts_def)
next
  case SpeechEnd
  then show ?thesis by (simp add: issued_def accepts_def)
next
  case (Settle i outcome)
  then show ?thesis by (simp add: issued_def accepts_def)
qed

lemma sent_step: "sent (step env e w) = sent w @ issued env e w"
proof (cases e)
  case KeyEnter
  then show ?thesis
    by (cases "trim (input (ui w)) = []")
       (auto simp: issued_def call_rejected call_accepted render_of_def send_text_def)
next
  case ClickSend
  then show ?thesis
    by (auto simp: issued_def call_rejected call_accepted render_of_def send_text_def)
next
  case (SpeechResult t)
  then show ?thesis
    by (cases "t = []")
       (auto simp: issued_def call_rejected call_accepted first_render_def send_text_def
          trim_def Let_def)
qed (simp_all add: issued_def handleVoiceInput_def)

lemma issued_target:
  "\<forall>req\<in>set (issued env e w).
     http_method req = lit ''POST'' \<and> url req = apiBaseUrl env @ lit ''/api/chat/''"
  using issued_cases [of env e w] by (auto simp: chat_request_def)

lemma sent_run:
  assumes "\<And>e w'. \<forall>req\<in>set (issued env e w'). P req"
  shows "\<forall>req\<in>set (sent w). P req \<Longrightarrow> \<forall>req\<in>set (sent (run env es w)). P req"
  unfolding run_def
proof (induction es arbitrary: w)
  case Nil
  then show ?case by simp
next
  case (Cons e es)
  have "\<forall>req\<in>set (sent (step env e w)). P req"
    using Cons.prems assms [of e w] by (auto simp: sent_step)
  from Cons.IH [OF this] show ?case by simp
qed

subsection \<open>The wire format\<close>

text \<open>
  A turn from the keyboard or the send button sends a body with exactly two fields, in
  this order: \<^verbatim>\<open>message\<close> with the trimmed input, and \<^verbatim>\<open>session_id\<close> with the session
  identifier of the moment (\<^verbatim>\<open>null\<close> when there is none).
\<close>

lemma typed_turn_body:
  "e = KeyEnter \<or> e = ClickSend \<Longrightarrow> req \<in> set (issued env e w) \<Longrightarrow>
   body req =
     [(lit ''message'', JString (trim (input (ui w)))),
      (lit ''session_id'',
         (case sessionId (ui w) of None \<Rightarrow> JNull | Some i \<Rightarrow> JString i))]"
  using issued_cases [of env e w]
  by (auto simp: chat_request_def render_of_def json_of_session_def)

text \<open>
  An ok response with a JSON body is read through its fields \<^verbatim>\<open>response\<close>,
  \<^verbatim>\<open>session_id\<close> and \<^verbatim>\<open>image_url\<close>.
\<close>

lemma ok_response_read:
  "i < length (inflight w) \<Longrightarrow> response_ok status \<Longrightarrow>
   messages (ui (step env (Settle i (Response status (Some data))) w)) =
     messages (ui w) @ [assistantMessage data] \<and>
   content (assistantMessage data) = response data \<and>
   sessionId (ui (step env (Settle i (Response status (Some data))) w)) =
     (if truthy (r_sessionId (fst (inflight w ! i))) then sessionId (ui w)
      else session_id data)"
  by (simp add: settle_ok assistantMessage_def)

text \<open>
  Claim C1. The claim is that every accepted turn sends a body with the fields
  \<^verbatim>\<open>message\<close> and \<^verbatim>\<open>session_id\<close>, the second being the current session identifier. In
  the runs below a first typed turn has been answered with session \<open>A\<close>, so the
  identifier is \<open>A\<close>. A second typed turn sends \<^verbatim>\<open>{message: "latte", session_id: "A"}\<close>.
  A voice turn in the same situation is accepted too, but the \<^verbatim>\<open>handleSend\<close> that the
  recogniser calls is the one of the first render, where \<^verbatim>\<open>sessionId\<close> is \<^verbatim>\<open>null\<close>: it
  sends \<^verbatim>\<open>{message: "latte", session_id: null}\<close>.
\<close>

theorem voice_turn_body_without_session:
  "sessionId (ui (run None
     [Change (lit ''hi''), KeyEnter, Settle 0 (reply ''Hello'' ''A'')]
     (mount True []))) = Some (lit ''A'') \<and>
   map body (issued None KeyEnter (run None
     [Change (lit ''hi''), KeyEnter, Settle 0 (reply ''Hello'' ''A''), Change (lit ''latte'')]
     (mount True []))) =
     [[(lit ''message'', JString (lit ''latte'')), (lit ''session_id'', JString (lit ''A''))]] \<and>
   sessionId (ui (run None
     [Change (lit ''hi''), KeyEnter, Settle 0 (reply ''Hello'' ''A''), ClickMic]
     (mount True []))) = Some (lit ''A'') \<and>
   map body (issued None (SpeechResult (lit ''latte'')) (run None
     [Change (lit ''hi''), KeyEnter, Settle 0 (reply ''Hello'' ''A''), ClickMic]
     (mount True []))) =
     [[(lit ''message'', JString (lit ''latte'')), (lit ''session_id'', JNull)]]"
  by (simp add: eval_defs issued_def)

subsection \<open>A failed send\<close>

text \<open>
  Claim C2. When the fetch of a waiting call is rejected or its response status is not
  ok, the component appends exactly one message, the assistant message with the fixed
  apology and no image; it issues no request (the log of requests is unchanged and the
  waiting calls are one fewer, so nothing is retried); the loading flag is false
  afterwards; the session identifier is untouched.
\<close>

theorem failed_send_shows_apology:
  "i < length (inflight w) \<Longrightarrow> failed outcome \<Longrightarrow>
   messages (ui (step env (Settle i outcome) w)) =
     messages (ui w) @
       [\<lparr>role = lit ''assistant'',
         content = lit ''Sorry, I encountered an error. Please try again.'',
         imageUrl = None\<rparr>] \<and>
   isLoading (ui (step env (Settle i outcome) w)) = False \<and>
   sent (step env (Settle i outcome) w) = sent w \<and>
   Suc (length (inflight (step env (Settle i outcome) w))) = length (inflight w) \<and>
   sessionId (ui (step env (Settle i outcome) w)) = sessionId (ui w)"
  by (auto simp: failed_def settle_failed errorMessage_def split: fetch_outcome.splits)

theorem failed_send_shows_apology_witness:
  "0 < length (inflight (run None [Change (lit ''hi''), KeyEnter] (mount True []))) \<and>
   failed (Response 500 None) \<and>
   messages (ui (step None (Settle 0 (Response 500 None))
       (run None [Change (lit ''hi''), KeyEnter] (mount True [])))) =
     [\<lparr>role = lit ''user'', content = lit ''hi'', imageUrl = None\<rparr>,
      \<lparr>role = lit ''assistant'',
        content = lit ''Sorry, I encountered an error. Please try again.'',
        imageUrl = None\<rparr>] \<and>
   inflight (step None (Settle 0 (Response 500 None))
       (run None [Change (lit ''hi''), KeyEnter] (mount True []))) = []"
  using failed_send_shows_apology
    [of 0 "run None [Change (lit ''hi''), KeyEnter] (mount True [])" "Response 500 None" None]
  by (simp add: eval_defs failed_def)

subsection \<open>The session identifier\<close>

text \<open>
  Claim C3. The claim is that the identifier, once set from the first successful
  response, is never overwritten and travels with every request. The run below is a
  typed turn answered with session \<open>A\<close>, then a voice turn answered with session \<open>B\<close>.
  After the first answer the identifier is \<open>A\<close>. The \<^verbatim>\<open>handleSend\<close> that the recogniser
  calls is the one of the first render, where \<^verbatim>\<open>sessionId\<close> is \<^verbatim>\<open>null\<close>: the request of
  the voice turn carries \<^verbatim>\<open>session_id: null\<close> although the identifier is \<open>A\<close>, and its
  answer replaces \<open>A\<close> by \<open>B\<close>.
\<close>

theorem voice_send_forgets_session:
  "sessionId (ui (run None
     [Change (lit ''hi''), KeyEnter, Settle 0 (reply ''Hello'' ''A''), ClickMic]
     (mount True []))) = Some (lit ''A'') \<and>
   map body (issued None (SpeechResult (lit ''latte'')) (run None
     [Change (lit ''hi''), KeyEnter, Settle 0 (reply ''Hello'' ''A''), ClickMic]
     (mount True []))) =
     [[(lit ''message'', JString (lit ''latte'')), (lit ''session_id'', JNull)]] \<and>
   sessionId (ui (run None
     [Change (lit ''hi''), KeyEnter, Settle 0 (reply ''Hello'' ''A''), ClickMic,
      SpeechResult (lit ''latte''), Settle 0 (reply ''Sure'' ''B'')]
     (mount True []))) = Some (lit ''B'')"
  by (simp add: eval_defs issued_def)

subsection \<open>Client-side storage\<close>

text \<open>
  The component never writes to \<^verbatim>\<open>localStorage\<close>, and a mount starts from the initial
  values of the hooks whatever the storage holds.
\<close>

lemma localStorage_step: "localStorage (step env e w) = localStorage w"
  by (cases e)
     (simp_all add: call_handleSend_def handleVoiceInput_def Let_def
        split: prod.split option.split)

lemma localStorage_run: "localStorage (run env es w) = localStorage w"
  unfolding run_def by (induction es arbitrary: w) (simp_all add: localStorage_step)

lemma mount_session: "sessionId (ui (mount supported storage)) = None"
  by (simp add: mount_def initial_state_def)

text \<open>
  Claim C4. The claim is that the session identifier is stored in \<^verbatim>\<open>localStorage\<close> when
  it is received and loaded from there on mount. In the run below a typed turn is
  answered with session \<open>A\<close>: the component holds \<open>A\<close>, \<^verbatim>\<open>localStorage\<close> is still empty,
  and after a page refresh the session identifier is \<^verbatim>\<open>null\<close> again.
\<close>

theorem session_lost_on_reload:
  "sessionId (ui (run None [Change (lit ''hi''), KeyEnter, Settle 0 (reply ''Hello'' ''A'')]
     (mount True []))) = Some (lit ''A'') \<and>
   localStorage (run None [Change (lit ''hi''), KeyEnter, Settle 0 (reply ''Hello'' ''A'')]
     (mount True [])) = [] \<and>
   sessionId (ui (reload (run None
     [Change (lit ''hi''), KeyEnter, Settle 0 (reply ''Hello'' ''A'')] (mount True [])))) = None"
  by (simp add: eval_defs reload_def)

subsection \<open>Requests in flight\<close>

text \<open>
  While the loading flag is true the rendered controls deliver nothing, and a
  \<^verbatim>\<open>handleSend\<close> whose render has the flag set returns at its guard.
\<close>

lemma controls_disabled_while_loading:
  "isLoading (ui w) \<Longrightarrow> e = Change v \<or> e = KeyEnter \<or> e = ClickSend \<or> e = ClickMic \<Longrightarrow>
   step env e w = w"
  by auto

lemma loading_render_returns:
  "r_isLoading r \<Longrightarrow> handleSend_begin env r mt s = (s, None)"
  by (simp add: handleSend_begin_def)

text \<open>
  Claim C5. The claim is that a second request can never start before the previous one
  completes. In the run below the user starts the recogniser, then types a message and
  presses Enter: the loading flag is true and one call is waiting. The recogniser then
  delivers its result; the \<^verbatim>\<open>handleSend\<close> it calls is the one of the first render, where
  \<^verbatim>\<open>isLoading\<close> is \<^verbatim>\<open>false\<close>, so it passes the guard and a second request is in flight
  while the first one is still waiting.
\<close>

theorem voice_send_while_loading:
  "isLoading (ui (run None [ClickMic, Change (lit ''hi''), KeyEnter] (mount True []))) \<and>
   length (inflight (run None [ClickMic, Change (lit ''hi''), KeyEnter] (mount True []))) = 1 \<and>
   length (inflight (run None
     [ClickMic, Change (lit ''hi''), KeyEnter, SpeechResult (lit ''latte'')]
     (mount True []))) = 2"
  by (simp add: eval_defs)

subsection \<open>The shape of messages\<close>

lemma step_messages:
  "messages (ui (step env e w)) = messages (ui w) \<or>
   (\<exists>m. messages (ui (step env e w)) = messages (ui w) @ [m] \<and> well_shaped m)"
proof (cases e)
  case KeyEnter
  then show ?thesis
    using call_messages [of env "render_of (ui w)" None w] by (auto simp: well_shaped_def)
next
  case ClickSend
  then show ?thesis
    using call_messages [of env "render_of (ui w)" None w] by (auto simp: well_shaped_def)
next
  case (SpeechResult t)
  then show ?thesis
    using call_messages [of env first_render "Some t"
        "w\<lparr>ui := (ui w)\<lparr>input := t, isListening := False\<rparr>, recognizing := False\<rparr>"]
    by (auto simp: well_shaped_def Let_def)
next
  case (Settle i outcome)
  then show ?thesis
    using settle_well_shaped [of "fst (inflight w ! i)" outcome "ui w"] by auto
qed (auto simp: handleVoiceInput_def)

lemma well_shaped_step:
  "\<forall>m\<in>set (messages (ui w)). well_shaped m \<Longrightarrow>
   \<forall>m\<in>set (messages (ui (step env e w))). well_shaped m"
  using step_messages [of env e w] by auto

lemma well_shaped_run:
  "\<forall>m\<in>set (messages (ui w)). well_shaped m \<Longrightarrow>
   \<forall>m\<in>set (messages (ui (run env es w))). well_shaped m"
  unfolding run_def
proof (induction es arbitrary: w)
  case Nil
  then show ?case by simp
next
  case (Cons e es)
  from Cons.IH [OF well_shaped_step [OF Cons.prems]] show ?case by simp
qed

text \<open>
  Claim C6. After any sequence of events from the mount, every message in the list has
  the role \<^verbatim>\<open>"user"\<close> or \<^verbatim>\<open>"assistant"\<close>, a string as content (by the type of the record)
  and an optional image: a user message has none, and the image of an assistant message,
  when present, is a non-empty string. No event puts anything else into the list.
\<close>

theorem messages_well_shaped:
  "m \<in> set (messages (ui (run env es (mount supported storage)))) \<Longrightarrow>
   role m = lit ''user'' \<and> imageUrl m = None \<or>
   role m = lit ''assistant'' \<and> imageUrl m \<noteq> Some []"
  using well_shaped_run [of "mount supported storage" env es]
  by (simp add: mount_def initial_state_def well_shaped_def)

theorem messages_well_shaped_witness:
  "\<lparr>role = lit ''user'', content = lit ''hi'', imageUrl = None\<rparr>
     \<in> set (messages (ui (run None [Change (lit ''hi''), KeyEnter] (mount True [])))) \<and>
   role \<lparr>role = lit ''user'', content = lit ''hi'', imageUrl = None\<rparr> = lit ''user''"
  using messages_well_shaped
    [of "\<lparr>role = lit ''user'', content = lit ''hi'', imageUrl = None\<rparr>"
        None "[Change (lit ''hi''), KeyEnter]" True "[]"]
  by (simp add: eval_defs)

subsection \<open>The chat endpoint\<close>

lemma issued_configured:
  "\<forall>req\<in>set (issued env e w).
     (\<forall>u. env = Some u \<and> u \<noteq> [] \<longrightarrow> url req = u @ lit ''/api/chat/'') \<and>
     (env = None \<or> env = Some [] \<longrightarrow> url req = lit ''http://localhost:8080/api/chat/'')"
  using issued_cases [of env e w]
  by (auto simp: chat_request_def apiBaseUrl_def lit_def)

text \<open>
  Claim C7. An event issues exactly one request when it is an accepted user turn and
  none otherwise. Every request issued is a \<^verbatim>\<open>POST\<close> to the base URL followed by
  \<^verbatim>\<open>/api/chat/\<close>: when \<^verbatim>\<open>NEXT_PUBLIC_API_BASE_URL\<close> is set to a non-empty \<open>u\<close> the address
  is \<open>u\<close> followed by \<^verbatim>\<open>/api/chat/\<close>, and when it is unset or empty the address is
  \<^verbatim>\<open>http://localhost:8080/api/chat/\<close>. So after any sequence of events from the mount,
  every request the component has sent is a \<^verbatim>\<open>POST\<close> to that one address.
\<close>

theorem one_post_to_chat_endpoint:
  "length (issued env e w) = (if accepts e w then 1 else 0) \<and>
   (\<forall>req\<in>set (issued env e w).
      http_method req = lit ''POST'' \<and> url req = apiBaseUrl env @ lit ''/api/chat/'' \<and>
      (\<forall>u. env = Some u \<and> u \<noteq> [] \<longrightarrow> url req = u @ lit ''/api/chat/'') \<and>
      (env = None \<or> env = Some [] \<longrightarrow> url req = lit ''http://localhost:8080/api/chat/'')) \<and>
   (\<forall>req\<in>set (sent (run env es (mount supported storage))).
      http_method req = lit ''POST'' \<and> url req = apiBaseUrl env @ lit ''/api/chat/'' \<and>
      (\<forall>u. env = Some u \<and> u \<noteq> [] \<longrightarrow> url req = u @ lit ''/api/chat/'') \<and>
      (env = None \<or> env = Some [] \<longrightarrow> url req = lit ''http://localhost:8080/api/chat/''))"
proof -
  have one: "length (issued env e w) = (if accepts e w then 1 else 0)"
    using issued_cases [of env e w] by auto
  have each: "\<forall>req\<in>set (issued env e' w').
      http_method req = lit ''POST'' \<and> url req = apiBaseUrl env @ lit ''/api/chat/'' \<and>
      (\<forall>u. env = Some u \<and> u \<noteq> [] \<longrightarrow> url req = u @ lit ''/api/chat/'') \<and>
      (env = None \<or> env = Some [] \<longrightarrow> url req = lit ''http://localhost:8080/api/chat/'')"
    for e' w'
    using issued_target [of env e' w'] issued_configured [of env e' w'] by blast
  have "\<forall>req\<in>set (sent (run env es (mount supported storage))).
      http_method req = lit ''POST'' \<and> url req = apiBaseUrl env @ lit ''/api/chat/'' \<and>
      (\<forall>u. env = Some u \<and> u \<noteq> [] \<longrightarrow> url req = u @ lit ''/api/chat/'') \<and>
      (env = None \<or> env = Some [] \<longrightarrow> url req = lit ''http://localhost:8080/api/chat/'')"
    by (rule sent_run [OF each]) (simp add: mount_def)
  with one each [of e w] show ?thesis by blast
qed

theorem one_post_to_chat_endpoint_witness:
  "accepts KeyEnter (run None [Change (lit ''hi'')] (mount True [])) \<and>
   length (issued None KeyEnter (run None [Change (lit ''hi'')] (mount True []))) = 1 \<and>
   map url (sent (run None [Change (lit ''hi''), KeyEnter] (mount True []))) =
     [lit ''http://localhost:8080/api/chat/''] \<and>
   map http_method (sent (run None [Change (lit ''hi''), KeyEnter] (mount True []))) =
     [lit ''POST''] \<and>
   map url (sent (run (Some (lit ''https://api.barista.example''))
       [Change (lit ''hi''), KeyEnter, Settle 0 (reply ''Hello'' ''A''), ClickMic,
        SpeechResult (lit ''latte'')] (mount True []))) =
     [lit ''https://api.barista.example/api/chat/'',
      lit ''https://api.barista.example/api/chat/'']"
proof -
  let ?b = "lit ''https://api.barista.example''"
  let ?es = "[Change (lit ''hi''), KeyEnter, Settle 0 (reply ''Hello'' ''A''), ClickMic,
        SpeechResult (lit ''latte'')]"
  let ?w = "run None [Change (lit ''hi'')] (mount True [])"
  have acc: "accepts KeyEnter ?w"
    by (simp add: eval_defs accepts_def passes_guard_def)
  have one: "length (issued None KeyEnter ?w) = 1"
    using one_post_to_chat_endpoint [of None KeyEnter ?w "[]" True "[]"] acc by simp
  have "\<forall>req\<in>set (sent (run None [Change (lit ''hi''), KeyEnter] (mount True []))).
      http_method req = lit ''POST'' \<and> url req = lit ''http://localhost:8080/api/chat/''"
    using one_post_to_chat_endpoint
      [of None KeyEnter ?w "[Change (lit ''hi''), KeyEnter]" True "[]"]
    by blast
  moreover have "length (sent (run None [Change (lit ''hi''), KeyEnter] (mount True []))) = 1"
    by (simp add: eval_defs)
  ultimately have dflt:
    "map url (sent (run None [Change (lit ''hi''), KeyEnter] (mount True []))) =
       [lit ''http://localhost:8080/api/chat/''] \<and>
     map http_method (sent (run None [Change (lit ''hi''), KeyEnter] (mount True []))) =
       [lit ''POST'']"
    by (cases "sent (run None [Change (lit ''hi''), KeyEnter] (mount True []))") auto
  have nonempty: "?b \<noteq> []" by (simp add: lit_def)
  have "\<forall>req\<in>set (sent (run (Some ?b) ?es (mount True []))). url req = ?b @ lit ''/api/chat/''"
    using one_post_to_chat_endpoint [of "Some ?b" KeyEnter ?w ?es True "[]"] nonempty
    by blast
  moreover have "length (sent (run (Some ?b) ?es (mount True []))) = 2"
    by (simp add: eval_defs)
  ultimately have "map url (sent (run (Some ?b) ?es (mount True []))) =
       [?b @ lit ''/api/chat/'', ?b @ lit ''/api/chat/'']"
    by (auto simp: length_Suc_conv numeral_2_eq_2)
  moreover have "?b @ lit ''/api/chat/'' = lit ''https://api.barista.example/api/chat/''"
    by (simp add: lit_def)
  ultimately have conf:
    "map url (sent (run (Some ?b) ?es (mount True []))) =
       [lit ''https://api.barista.example/api/chat/'',
        lit ''https://api.barista.example/api/chat/'']"
    by (simp only:)
  from acc one dflt conf show ?thesis by blast
qed

subsection \<open>A blank input\<close>

text \<open>
  Claim C8. A call of \<^verbatim>\<open>handleSend\<close> without a message argument, made when the input
  it reads is empty or holds white space only, returns at the guard: the state it
  returns is the state it was given (no message appended; input, loading flag and
  session identifier as before) and it issues no request, so the world is unchanged.
\<close>

theorem blank_input_changes_nothing:
  "list_all isWhiteSpace (r_input r) \<Longrightarrow>
   handleSend_begin env r None s = (s, None) \<and> call_handleSend env r None w = w"
  by (simp add: handleSend_begin_def call_handleSend_def send_text_def trim_blank)

theorem blank_input_changes_nothing_witness:
  "list_all isWhiteSpace [0x20, 0x09, 0x3000] \<and>
   handleSend_begin None
     \<lparr>r_input = [0x20, 0x09, 0x3000], r_isLoading = False, r_sessionId = None\<rparr>
     None (initial_state True) = (initial_state True, None) \<and>
   call_handleSend None
     \<lparr>r_input = [0x20, 0x09, 0x3000], r_isLoading = False, r_sessionId = None\<rparr>
     None (mount True []) = mount True []"
  using blank_input_changes_nothing
    [of "\<lparr>r_input = [0x20, 0x09, 0x3000], r_isLoading = False, r_sessionId = None\<rparr>"
        None "initial_state True" "mount True []"]
  by (simp add: isWhiteSpace_def)

subsection \<open>The image of an assistant message\<close>

text \<open>
  Claim C9. An ok response with a JSON body appends the assistant message built from
  that body, and this message has an image exactly when the \<^verbatim>\<open>image_url\<close> field is
  truthy: a non-empty string becomes the image; a missing field, \<^verbatim>\<open>null\<close> and the empty
  string leave \<^verbatim>\<open>imageUrl\<close> undefined.
\<close>

theorem assistant_image_iff_truthy:
  "response_ok status \<Longrightarrow>
   messages (handleSend_settle r (Response status (Some data)) s) =
     messages s @ [assistantMessage data] \<and>
   (imageUrl (assistantMessage data) \<noteq> None \<longleftrightarrow> truthy_field (image_url data)) \<and>
   (\<forall>u. image_url data = Str u \<and> u \<noteq> [] \<longrightarrow> imageUrl (assistantMessage data) = Some u) \<and>
   (image_url data = Undefined \<or> image_url data = Null \<or> image_url data = Str [] \<longrightarrow>
      imageUrl (assistantMessage data) = None)"
  by (auto simp: settle_ok assistantMessage_def image_of_def truthy_field_def
      split: image_field.splits)

theorem assistant_image_iff_truthy_witness:
  "response_ok 200 \<and>
   imageUrl (last (messages (handleSend_settle first_render
     (Response 200 (Some \<lparr>response = lit ''Here it is'', session_id = Some (lit ''A''),
        image_url = Str (lit ''http://img/1.png'')\<rparr>)) (initial_state True))))
     = Some (lit ''http://img/1.png'') \<and>
   imageUrl (assistantMessage \<lparr>response = lit ''Hello'', session_id = Some (lit ''A''),
        image_url = Str []\<rparr>) = None"
  using assistant_image_iff_truthy
    [of 200 first_render "\<lparr>response = lit ''Here it is'', session_id = Some (lit ''A''),
        image_url = Str (lit ''http://img/1.png'')\<rparr>" "initial_state True"]
    assistant_image_iff_truthy
    [of 200 first_render "\<lparr>response = lit ''Hello'', session_id = Some (lit ''A''),
        image_url = Str []\<rparr>" "initial_state True"]
  by (simp add: response_ok_def lit_def)

subsection \<open>Alternation of roles\<close>

lemma concat_replicate_snoc:
  "concat (replicate n xs) @ xs = concat (replicate (Suc n) xs)"
  by (induction n) simp_all

lemma length_concat_replicate_pair: "length (concat (replicate n [a, b])) = 2 * n"
  by (induction n) simp_all

lemma call_alternating:
  "alternating w \<Longrightarrow> inflight w = [] \<Longrightarrow> alternating (call_handleSend env r mt w)"
  by (cases "send_text r mt = [] \<or> r_isLoading r")
     (auto simp: call_rejected call_accepted alternating_def)

lemma settle_alternating:
  assumes "alternating w"
  shows "alternating (step env (Settle i outcome) w)"
proof (cases "i < length (inflight w)")
  case False
  then show ?thesis using assms by simp
next
  case True
  with assms have one: "length (inflight w) = 1" and i: "i = 0"
    by (auto simp: alternating_def)
  from assms one obtain n where n: "length (sent w) = Suc n"
    by (cases "length (sent w)") (auto simp: alternating_def)
  from assms one n have roles:
    "map role (messages (ui w)) =
       concat (replicate n [lit ''user'', lit ''assistant'']) @ [lit ''user'']"
    by (simp add: alternating_def)
  obtain m where m:
    "messages (handleSend_settle (fst (inflight w ! i)) outcome (ui w)) = messages (ui w) @ [m]"
    "role m = lit ''assistant''"
    using settle_appends by blast
  have "inflight (step env (Settle i outcome) w) = []"
    using True one i by simp
  moreover have "sent (step env (Settle i outcome) w) = sent w"
    by simp
  moreover have "map role (messages (ui (step env (Settle i outcome) w))) =
      concat (replicate (Suc n) [lit ''user'', lit ''assistant''])"
    using True m roles by (simp add: concat_replicate_snoc [symmetric] del: replicate.simps)
  ultimately show ?thesis by (simp add: alternating_def n)
qed

lemma step_alternating:
  assumes a: "alternating w" and idle: "is_turn e \<longrightarrow> inflight w = []"
  shows "alternating (step env e w)"
proof (cases e)
  case KeyEnter
  with a idle show ?thesis by (simp add: is_turn_def call_alternating)
next
  case ClickSend
  with a idle show ?thesis by (simp add: is_turn_def call_alternating)
next
  case (SpeechResult t)
  with idle have idle': "inflight w = []" by (simp add: is_turn_def)
  let ?w1 = "w\<lparr>ui := (ui w)\<lparr>input := t, isListening := False\<rparr>, recognizing := False\<rparr>"
  have "alternating ?w1" using a by (simp add: alternating_def)
  then have "alternating (call_handleSend env first_render (Some t) ?w1)"
    by (rule call_alternating) (simp add: idle')
  with SpeechResult a show ?thesis by (simp add: Let_def)
next
  case (Settle i outcome)
  with a show ?thesis using settle_alternating by blast
qed (use a in \<open>auto simp: alternating_def handleVoiceInput_def\<close>)

lemma run_alternating:
  "alternating w \<Longrightarrow> sequential env es w \<Longrightarrow> alternating (run env es w)"
  unfolding run_def
  by (induction es arbitrary: w) (simp_all add: step_alternating)

text \<open>
  Claim C10. Under sequential sends (typed or spoken, answered or failed), whenever no
  call is waiting, the roles of the conversation are \<^verbatim>\<open>user\<close>, \<^verbatim>\<open>assistant\<close> repeated
  once for every request sent: every completed send has added exactly its user message
  followed by one assistant message, the list starts with a user message, alternates
  strictly, and its length is twice the number of sends, hence even.
\<close>

theorem sequential_sends_alternate:
  "sequential env es (mount supported storage) \<Longrightarrow>
   inflight (run env es (mount supported storage)) = [] \<Longrightarrow>
   map role (messages (ui (run env es (mount supported storage)))) =
     concat (replicate (length (sent (run env es (mount supported storage))))
               [lit ''user'', lit ''assistant'']) \<and>
   length (messages (ui (run env es (mount supported storage)))) =
     2 * length (sent (run env es (mount supported storage)))"
proof -
  assume seq: "sequential env es (mount supported storage)"
    and idle: "inflight (run env es (mount supported storage)) = []"
  have "alternating (mount supported storage)"
    by (simp add: alternating_def mount_def initial_state_def)
  from run_alternating [OF this seq] idle
  have roles: "map role (messages (ui (run env es (mount supported storage)))) =
     concat (replicate (length (sent (run env es (mount supported storage))))
               [lit ''user'', lit ''assistant''])"
    by (simp add: alternating_def)
  have "length (messages (ui (run env es (mount supported storage)))) =
      length (map role (messages (ui (run env es (mount supported storage)))))"
    by simp
  also have "\<dots> = length (concat (replicate (length (sent (run env es (mount supported storage))))
               [lit ''user'', lit ''assistant'']))"
    by (simp only: roles)
  also have "\<dots> = 2 * length (sent (run env es (mount supported storage)))"
    by (rule length_concat_replicate_pair)
  finally show ?thesis using roles by simp
qed

theorem sequential_sends_alternate_witness:
  "sequential None
     [Change (lit ''hi''), KeyEnter, Settle 0 (reply ''Hello'' ''A''), ClickMic,
      SpeechResult (lit ''latte''), Settle 0 (Response 500 None)] (mount True []) \<and>
   inflight (run None
     [Change (lit ''hi''), KeyEnter, Settle 0 (reply ''Hello'' ''A''), ClickMic,
      SpeechResult (lit ''latte''), Settle 0 (Response 500 None)] (mount True [])) = [] \<and>
   map role (messages (ui (run None
     [Change (lit ''hi''), KeyEnter, Settle 0 (reply ''Hello'' ''A''), ClickMic,
      SpeechResult (lit ''latte''), Settle 0 (Response 500 None)] (mount True [])))) =
     [lit ''user'', lit ''assistant'', lit ''user'', lit ''assistant'']"
  using sequential_sends_alternate
    [of None "[Change (lit ''hi''), KeyEnter, Settle 0 (reply ''Hello'' ''A''), ClickMic,
      SpeechResult (lit ''latte''), Settle 0 (Response 500 None)]" True "[]"]
  by (simp add: eval_defs is_turn_def)

end
